theory Spec2Isabelle
  imports Main "HOL-Library.Word" "HOL-Library.Signed_Division"
begin

section \<open>The ClearPath step-and-direction motor object\<close>

text \<open>
  A shallow embedding of \<^verbatim>\<open>ClearPathMotorSD.cpp\<close> and \<^verbatim>\<open>ClearPathMotorSD.h\<close>.

  Integer types. \<^verbatim>\<open>long\<close>, \<^verbatim>\<open>int32_t\<close> and \<^verbatim>\<open>uint32_t\<close> are 32-bit words and
  \<^verbatim>\<open>uint8_t\<close> is an 8-bit word. Arithmetic wraps around (two's complement, what the
  Arduino compilers generate where C leaves signed overflow undefined), a right shift of a
  signed value is arithmetic (\<open>signed_drop_bit\<close>), a right shift of an unsigned value is
  logical (\<open>drop_bit\<close>), and a comparison is signed (\<open>\<le>s\<close>, \<open><s\<close>) unless one operand is
  unsigned of the same width, in which case C converts both to unsigned (\<open>\<le>\<close>, \<open><\<close>).
  A shift by \<^verbatim>\<open>fractionalBits\<close> is defined in C for counts below 32 only; the constructor
  sets \<^verbatim>\<open>fractionalBits\<close> to 10 and nothing assigns it afterwards.
  Plain \<^verbatim>\<open>int\<close> expressions are evaluated at 32 bits, as on the 32-bit Arduino boards;
  this only matters inside \<^verbatim>\<open>setMaxVel\<close> (with a 16-bit \<^verbatim>\<open>int\<close> the product
  \<^verbatim>\<open>50*(1<<fractionalBits)\<close> does not fit). \<^verbatim>\<open>moveStateX\<close> only ever holds and is
  compared with small constants and is an unbounded integer here.

  Effects. Every member function is a function from the object's state to its new state
  (and a result where the C++ function has one). Pin and serial output
  (\<^verbatim>\<open>pinMode\<close>, \<^verbatim>\<open>digitalWrite\<close>, \<^verbatim>\<open>delay\<close>, \<^verbatim>\<open>Serial.print\<close>) does not touch the
  object and is left out, and so are \<^verbatim>\<open>readHLFB\<close>, which only reads a pin, and
  \<^verbatim>\<open>printInfo\<close>. The interrupt brackets \<^verbatim>\<open>cli()\<close>/\<^verbatim>\<open>sei()\<close> are left out as well: each
  function here is one indivisible state change. A division by zero (possible in case 6
  of \<^verbatim>\<open>calcSteps\<close>) is the result \<open>None\<close>.
\<close>

type_synonym long = "32 word"
type_synonym int32_t = "32 word"
type_synonym uint32_t = "32 word"
type_synonym uint8_t = "8 word"

text \<open>
  The fields of the class, in the order of the header. A leading underscore of a C++ name
  is dropped (\<^verbatim>\<open>_TX\<close> is \<open>TX\<close>, \<^verbatim>\<open>_direction\<close> is \<open>direction\<close>, \<^verbatim>\<open>_flag\<close> is \<open>flag\<close>,
  \<^verbatim>\<open>_BurstX\<close> is \<open>BurstX\<close>).
\<close>

record ClearPathMotorSD =
  PinA :: uint8_t
  PinB :: uint8_t
  PinE :: uint8_t
  PinH :: uint8_t
  Enabled :: bool
  moveStateX :: int
  AbsPosition :: long
  CommandX :: long
  direction :: bool
  BurstX :: uint8_t
  VelLimitQx :: int32_t
  AccLimitQx :: int32_t
  StepsSent :: uint32_t
  VelRefQx :: int32_t
  AccelRefQx :: int32_t
  TX :: long
  TX1 :: long
  TX2 :: long
  TX3 :: long
  TAUX :: long
  flag :: bool
  AccelRefQxS :: int32_t
  MovePosnQx :: uint32_t
  TargetPosnQx :: long
  TriangleMovePeakQx :: long
  minAbsPosition :: long
  maxAbsPosition :: long
  fractionalBits :: uint8_t
  decelDistanceQx :: long
  decelAbsDistance :: long

subsection \<open>C operators\<close>

text \<open>\<^verbatim>\<open>labs\<close> of the C library, on a 32-bit \<^verbatim>\<open>long\<close>.\<close>

definition labs :: "long \<Rightarrow> long" where
  "labs x = (if x <s 0 then - x else x)"

text \<open>
  Arduino's macro \<^verbatim>\<open>abs(x) ((x)>0?(x):-(x))\<close>, once at type \<^verbatim>\<open>long\<close> and once at
  type \<^verbatim>\<open>uint32_t\<close>, where the comparison and the negation are unsigned.
\<close>

definition abs_long :: "long \<Rightarrow> long" where
  "abs_long x = (if 0 <s x then x else - x)"

definition abs_uint32 :: "uint32_t \<Rightarrow> uint32_t" where
  "abs_uint32 x = (if 0 < x then x else - x)"

text \<open>Arduino's macro \<^verbatim>\<open>min(a,b) ((a)<(b)?(a):(b))\<close> at a signed 32-bit type.\<close>

definition min_long :: "long \<Rightarrow> long \<Rightarrow> long" where
  "min_long a b = (if a <s b then a else b)"

text \<open>
  C's signed division truncates towards zero (\<open>sdiv\<close> on \<open>int\<close>). \<open>sdiv_long\<close> is used
  where the divisor is a non-zero constant; \<open>div_long\<close> is the division by a computed
  divisor, undefined when that is zero.
\<close>

definition sdiv_long :: "long \<Rightarrow> long \<Rightarrow> long" where
  "sdiv_long a b = word_of_int (sint a sdiv sint b)"

definition div_long :: "long \<Rightarrow> long \<Rightarrow> long option" where
  "div_long a b = (if b = 0 then None else Some (sdiv_long a b))"

text \<open>\<^verbatim>\<open>x << fractionalBits\<close> and the two versions of \<^verbatim>\<open>x >> fractionalBits\<close>.\<close>

definition shl :: "32 word \<Rightarrow> uint8_t \<Rightarrow> 32 word" where
  "shl x n = push_bit (unat n) x"

definition shr_unsigned :: "uint32_t \<Rightarrow> uint8_t \<Rightarrow> uint32_t" where
  "shr_unsigned x n = drop_bit (unat n) x"

subsection \<open>Constructor and pin attachment\<close>

text \<open>
  The constructor assigns every field except \<^verbatim>\<open>_direction\<close>, \<^verbatim>\<open>decelDistanceQx\<close> and
  \<^verbatim>\<open>decelAbsDistance\<close>; their initial values are whatever the storage holds and are
  parameters here (\<open>False\<close>, \<open>0\<close>, \<open>0\<close> for an object with static storage).
\<close>

definition ClearPathMotorSD_init :: "bool \<Rightarrow> long \<Rightarrow> long \<Rightarrow> ClearPathMotorSD" where
  "ClearPathMotorSD_init dir0 dq0 da0 =
    \<lparr> PinA = 0, PinB = 0, PinE = 0, PinH = 0,
      Enabled = False,
      moveStateX = 3,
      AbsPosition = 0,
      CommandX = 0,
      direction = dir0,
      BurstX = 0,
      VelLimitQx = 0,
      AccLimitQx = 0,
      StepsSent = 0,
      VelRefQx = 0,
      AccelRefQx = 0,
      TX = 0, TX1 = 0, TX2 = 0, TX3 = 0, TAUX = 0,
      flag = False,
      AccelRefQxS = 0,
      MovePosnQx = 0,
      TargetPosnQx = 0,
      TriangleMovePeakQx = 0,
      minAbsPosition = 0,
      maxAbsPosition = 54400,
      fractionalBits = 10,
      decelDistanceQx = dq0,
      decelAbsDistance = da0 \<rparr>"

text \<open>The four overloads of \<^verbatim>\<open>attach\<close>; an \<^verbatim>\<open>int\<close> pin number is stored in a \<^verbatim>\<open>uint8_t\<close>.\<close>

definition attach1 :: "int \<Rightarrow> ClearPathMotorSD \<Rightarrow> ClearPathMotorSD" where
  "attach1 BPin s = s\<lparr>PinA := 0, PinB := of_int BPin, PinE := 0, PinH := 0\<rparr>"

definition attach2 :: "int \<Rightarrow> int \<Rightarrow> ClearPathMotorSD \<Rightarrow> ClearPathMotorSD" where
  "attach2 APin BPin s = s\<lparr>PinA := of_int APin, PinB := of_int BPin, PinE := 0, PinH := 0\<rparr>"

definition attach3 :: "int \<Rightarrow> int \<Rightarrow> int \<Rightarrow> ClearPathMotorSD \<Rightarrow> ClearPathMotorSD" where
  "attach3 APin BPin EPin s =
     s\<lparr>PinA := of_int APin, PinB := of_int BPin, PinE := of_int EPin, PinH := 0\<rparr>"

definition attach4 :: "int \<Rightarrow> int \<Rightarrow> int \<Rightarrow> int \<Rightarrow> ClearPathMotorSD \<Rightarrow> ClearPathMotorSD" where
  "attach4 APin BPin EPin HPin s =
     s\<lparr>PinA := of_int APin, PinB := of_int BPin, PinE := of_int EPin, PinH := of_int HPin\<rparr>"

subsection \<open>Commands and settings\<close>

definition stopMove :: "ClearPathMotorSD \<Rightarrow> ClearPathMotorSD" where
  "stopMove s =
     s\<lparr>MovePosnQx := 0, VelRefQx := 0, StepsSent := 0,
       TX := 0, TX1 := 0, TX2 := 0, TX3 := 0,
       BurstX := 0, moveStateX := 3, CommandX := 0\<rparr>"

definition move :: "long \<Rightarrow> ClearPathMotorSD \<Rightarrow> bool \<times> ClearPathMotorSD" where
  "move dist s =
     (if CommandX s = 0 then
        (if dist <s 0 then
           (let s1 = (if PinA s \<noteq> 0 then s\<lparr>direction := True\<rparr> else s)
            in (True, s1\<lparr>CommandX := - dist\<rparr>))
         else
           (let s1 = (if PinA s \<noteq> 0 then s\<lparr>direction := False\<rparr> else s)
            in (True, s1\<lparr>CommandX := dist\<rparr>)))
      else (False, s))"

definition moveFast :: "long \<Rightarrow> ClearPathMotorSD \<Rightarrow> bool \<times> ClearPathMotorSD" where
  "moveFast dist s =
     (if CommandX s = 0 then
        (if dist <s 0 then
           (let s1 = (if PinA s \<noteq> 0 then s\<lparr>direction := True\<rparr> else s)
            in (True, s1\<lparr>moveStateX := 4, CommandX := - dist\<rparr>))
         else
           (let s1 = (if PinA s \<noteq> 0 then s\<lparr>direction := False\<rparr> else s)
            in (True, s1\<lparr>moveStateX := 4, CommandX := dist\<rparr>)))
      else (False, s))"

text \<open>
  \<^verbatim>\<open>setMaxVel\<close>: \<^verbatim>\<open>int n = velMax/2000\<close>, then the rescaled value if \<^verbatim>\<open>n<51\<close> and
  \<^verbatim>\<open>50*(1<<fractionalBits)\<close> otherwise. The divisions by the constants 2000 and
  4000000 cannot fail.
\<close>

definition setMaxVel :: "long \<Rightarrow> ClearPathMotorSD \<Rightarrow> ClearPathMotorSD" where
  "setMaxVel velMax s =
     (let n = sdiv_long velMax 2000 in
      if n <s 51 then
        s\<lparr>VelLimitQx := sdiv_long (velMax * shl 1 (fractionalBits s)) 2000\<rparr>
      else
        s\<lparr>VelLimitQx := 50 * shl 1 (fractionalBits s)\<rparr>)"

definition setMaxAccel :: "long \<Rightarrow> ClearPathMotorSD \<Rightarrow> ClearPathMotorSD" where
  "setMaxAccel accelMax s =
     s\<lparr>AccLimitQx := sdiv_long (accelMax * shl 1 (fractionalBits s)) 4000000\<rparr>"

definition setPositionLimits :: "long \<Rightarrow> long \<Rightarrow> ClearPathMotorSD \<Rightarrow> ClearPathMotorSD" where
  "setPositionLimits mn mx s = s\<lparr>minAbsPosition := mn, maxAbsPosition := mx\<rparr>"

definition getCommandedPosition :: "ClearPathMotorSD \<Rightarrow> long" where
  "getCommandedPosition s = AbsPosition s"

definition getDirection :: "ClearPathMotorSD \<Rightarrow> bool" where
  "getDirection s = direction s"

definition commandDone :: "ClearPathMotorSD \<Rightarrow> bool" where
  "commandDone s = (if CommandX s = 0 then True else False)"

definition enable :: "ClearPathMotorSD \<Rightarrow> ClearPathMotorSD" where
  "enable s = s\<lparr>AbsPosition := 0, Enabled := True\<rparr>"

definition disable :: "ClearPathMotorSD \<Rightarrow> ClearPathMotorSD" where
  "disable s = (stopMove s)\<lparr>Enabled := False\<rparr>"

definition decelerateStopOverDistance :: "long \<Rightarrow> ClearPathMotorSD \<Rightarrow> ClearPathMotorSD" where
  "decelerateStopOverDistance stopDist s = s\<lparr>decelAbsDistance := stopDist, moveStateX := 6\<rparr>"

definition decelerateStopWithAccel :: "long \<Rightarrow> ClearPathMotorSD \<Rightarrow> ClearPathMotorSD" where
  "decelerateStopWithAccel accel s = s"

subsection \<open>The tick function \<^verbatim>\<open>calcSteps\<close>\<close>

text \<open>
  One definition for each case of the \<^verbatim>\<open>switch(moveStateX)\<close>. Case 3 is the idle state:
  with no command it clears the move, otherwise it sets the move up and either finishes
  it at once or makes the first step of the ramp.
\<close>

definition case3 :: "ClearPathMotorSD \<Rightarrow> ClearPathMotorSD" where
  "case3 s =
     (if CommandX s = 0 then
        s\<lparr>MovePosnQx := 0, VelRefQx := 0, StepsSent := 0,
          TX := 0, TX1 := 0, TX2 := 0, TX3 := 0, BurstX := 0\<rparr>
      else
        (let Target = shl (CommandX s) (fractionalBits s);
             Peak = abs_long (signed_drop_bit 1 Target);
             AccS = (if 0 <s Target then AccLimitQx s else - AccLimitQx s);
             s1 = s\<lparr>TargetPosnQx := Target, TriangleMovePeakQx := Peak,
                    AccelRefQxS := AccS, AccelRefQx := AccS\<rparr>
         in if Peak \<le>s AccLimitQx s then
              s1\<lparr>AccelRefQx := 0, VelRefQx := 0, MovePosnQx := Target,
                 moveStateX := 3, CommandX := 0\<rparr>
            else
              s1\<lparr>MovePosnQx := MovePosnQx s + VelRefQx s,
                 VelRefQx := VelRefQx s + AccS,
                 moveStateX := 1\<rparr>))"

text \<open>
  Case 1, the first half of the move. \<^verbatim>\<open>abs(MovePosnQx) >= TriangleMovePeakQx\<close> compares
  an unsigned with a signed 32-bit value, so it is an unsigned comparison.
\<close>

definition case1 :: "ClearPathMotorSD \<Rightarrow> ClearPathMotorSD" where
  "case1 s =
     (let P = MovePosnQx s + VelRefQx s + signed_drop_bit 1 (AccelRefQx s);
          V = VelRefQx s + AccelRefQx s;
          s1 = s\<lparr>MovePosnQx := P, VelRefQx := V\<rparr>
      in if TriangleMovePeakQx s1 \<le> abs_uint32 P then
           (let s2 =
              (if flag s1 then
                 (let t1 = (if TX1 s1 = 0 then TX s1 else TX1 s1);
                      t2 = (if TX2 s1 = 0 then TX s1 else TX2 s1)
                  in s1\<lparr>TX1 := t1, TX2 := t2,
                        AccelRefQx := - AccelRefQx s1,
                        TX3 := push_bit 1 t2 - t1,
                        TAUX := push_bit 1 t2,
                        moveStateX := 2\<rparr>)
               else s1)
            in s2\<lparr>flag := True\<rparr>)
         else
           (if VelLimitQx s1 \<le>s labs V then
              (if TX1 s1 = 0 then
                 s1\<lparr>AccelRefQx := 0, TX1 := TX s1,
                    VelRefQx := (if 0 <s V then VelLimitQx s1 else - VelLimitQx s1)\<rparr>
               else s1)
            else s1))"

text \<open>Case 2, the second half of the move.\<close>

definition case2 :: "ClearPathMotorSD \<Rightarrow> ClearPathMotorSD" where
  "case2 s =
     (let P = MovePosnQx s + VelRefQx s + signed_drop_bit 1 (AccelRefQx s);
          V = VelRefQx s + AccelRefQx s;
          s1 = s\<lparr>MovePosnQx := P, VelRefQx := V\<rparr>
      in if TX3 s1 \<le>s TX s1 then
           (let A = - AccelRefQxS s1;
                s2 = s1\<lparr>AccelRefQx := A\<rparr>
            in if TAUX s2 <s TX s2 \<or> labs (TargetPosnQx s2) <s labs P \<or> 0 <s V * A then
                 s2\<lparr>AccelRefQx := 0, VelRefQx := 0, MovePosnQx := TargetPosnQx s2,
                    moveStateX := 3, CommandX := 0\<rparr>
               else s2)
         else s1)"

text \<open>
  Case 4, the fast move. \<^verbatim>\<open>MovePosnQx = TargetPosnQx\<close> comes before the test
  \<^verbatim>\<open>TargetPosnQx-MovePosnQx>50<<fractionalBits\<close>, which is unsigned (the difference of a
  \<^verbatim>\<open>long\<close> and a \<^verbatim>\<open>uint32_t\<close>); \<^verbatim>\<open>MovePosnQx+50<<fractionalBits\<close> shifts the sum.
\<close>

definition case4 :: "ClearPathMotorSD \<Rightarrow> ClearPathMotorSD" where
  "case4 s =
     (let Target = shl (CommandX s) (fractionalBits s);
          s1 = s\<lparr>TargetPosnQx := Target, MovePosnQx := Target\<rparr>
      in if shl 50 (fractionalBits s1) < TargetPosnQx s1 - MovePosnQx s1 then
           s1\<lparr>MovePosnQx := shl (MovePosnQx s1 + 50) (fractionalBits s1)\<rparr>
         else
           s1\<lparr>MovePosnQx := TargetPosnQx s1, CommandX := 0, moveStateX := 3\<rparr>)"

text \<open>Case 6, the set-up of the deceleration over a distance; it divides by that distance.\<close>

definition case6 :: "ClearPathMotorSD \<Rightarrow> ClearPathMotorSD option" where
  "case6 s =
     (if flag s then
        (let s1 = s\<lparr>TX := 0, TAUX := 550000\<rparr>;
             D = (if direction s1 then
                    (if maxAbsPosition s1 <s AbsPosition s1 + decelAbsDistance s1 then
                       shl (labs (maxAbsPosition s1 - AbsPosition s1)) (fractionalBits s1)
                     else shl (decelAbsDistance s1) (fractionalBits s1))
                  else
                    (if AbsPosition s1 - decelAbsDistance s1 <s minAbsPosition s1 then
                       shl (labs (AbsPosition s1 - minAbsPosition s1)) (fractionalBits s1)
                     else shl (decelAbsDistance s1) (fractionalBits s1)));
             s2 = s1\<lparr>decelDistanceQx := D\<rparr>
         in case div_long (- (VelRefQx s2 * VelRefQx s2)) (push_bit 1 D) of
              None \<Rightarrow> None
            | Some A \<Rightarrow> Some (s2\<lparr>AccelRefQx := min_long (- 1) A, moveStateX := 7\<rparr>))
      else Some s)"

text \<open>Case 7, the deceleration itself, with the acceleration recomputed on every tick.\<close>

definition case7 :: "ClearPathMotorSD \<Rightarrow> ClearPathMotorSD option" where
  "case7 s =
     (let P = MovePosnQx s + VelRefQx s + signed_drop_bit 1 (AccelRefQx s);
          V = VelRefQx s + AccelRefQx s;
          D = TargetPosnQx s - P;
          s1 = s\<lparr>MovePosnQx := P, VelRefQx := V, decelDistanceQx := D\<rparr>
      in if TAUX s1 <s TX s1 \<or> labs (TargetPosnQx s1) <s labs P \<or> labs D \<le>s 0
            \<or> 0 <s V * AccelRefQx s1 then
           Some (s1\<lparr>AccelRefQx := 0, VelRefQx := 0, TargetPosnQx := P,
                   moveStateX := 3, CommandX := 0\<rparr>)
         else
           (case div_long (- (V * V)) (push_bit 1 D) of
              None \<Rightarrow> None
            | Some A \<Rightarrow> Some (s1\<lparr>AccelRefQx := min_long (- 1) A\<rparr>)))"

text \<open>The \<^verbatim>\<open>switch\<close>: a value of \<^verbatim>\<open>moveStateX\<close> without a case does nothing.\<close>

definition switch_moveStateX :: "ClearPathMotorSD \<Rightarrow> ClearPathMotorSD option" where
  "switch_moveStateX s =
     (if moveStateX s = 3 then Some (case3 s)
      else if moveStateX s = 1 then Some (case1 s)
      else if moveStateX s = 2 then Some (case2 s)
      else if moveStateX s = 4 then Some (case4 s)
      else if moveStateX s = 6 then case6 s
      else if moveStateX s = 7 then case7 s
      else Some s)"

text \<open>
  After the \<^verbatim>\<open>switch\<close>: the burst is the difference of \<^verbatim>\<open>MovePosnQx\<close> and
  \<^verbatim>\<open>StepsSent\<close> shifted right, stored in the \<^verbatim>\<open>uint8_t\<close> \<^verbatim>\<open>_BurstX\<close>; it is added back
  to \<^verbatim>\<open>StepsSent\<close> and added to or subtracted from \<^verbatim>\<open>AbsPosition\<close>.
\<close>

definition burst :: "ClearPathMotorSD \<Rightarrow> int \<times> ClearPathMotorSD" where
  "burst s =
     (let B = (ucast (shr_unsigned (MovePosnQx s - StepsSent s) (fractionalBits s)) :: uint8_t);
          s1 = s\<lparr>BurstX := B\<rparr>;
          s2 = s1\<lparr>StepsSent := StepsSent s1 + shl (ucast (BurstX s1)) (fractionalBits s1)\<rparr>;
          s3 = (if direction s2
                then s2\<lparr>AbsPosition := AbsPosition s2 + ucast (BurstX s2)\<rparr>
                else s2\<lparr>AbsPosition := AbsPosition s2 - ucast (BurstX s2)\<rparr>)
      in (uint (BurstX s3), s3))"

definition calcSteps :: "ClearPathMotorSD \<Rightarrow> (int \<times> ClearPathMotorSD) option" where
  "calcSteps s0 =
     (let s = s0\<lparr>TX := TX s0 + 1\<rparr>
      in if \<not> Enabled s then Some (0, s)
         else (case switch_moveStateX s of
                 None \<Rightarrow> None
               | Some s1 \<Rightarrow> Some (burst s1)))"

text \<open>
  \<open>ticks n\<close> is \<open>n\<close> successive calls of \<^verbatim>\<open>calcSteps\<close>, as the timer interrupt makes them,
  with the list of the values returned.
\<close>

fun ticks :: "nat \<Rightarrow> ClearPathMotorSD \<Rightarrow> (int list \<times> ClearPathMotorSD) option" where
  "ticks 0 s = Some ([], s)"
| "ticks (Suc n) s =
     (case calcSteps s of
        None \<Rightarrow> None
      | Some (b, s1) \<Rightarrow>
          (case ticks n s1 of
             None \<Rightarrow> None
           | Some (bs, s2) \<Rightarrow> Some (b # bs, s2)))"

text \<open>
  \<open>phase2_ticks n\<close> is \<open>n\<close> successive calls of \<^verbatim>\<open>calcSteps\<close>, each of them made with
  the move in its second half (\<^verbatim>\<open>moveStateX == 2\<close>); the last of them may be the call
  that completes the move.
\<close>

fun phase2_ticks :: "nat \<Rightarrow> ClearPathMotorSD \<Rightarrow> ClearPathMotorSD option" where
  "phase2_ticks 0 s = Some s"
| "phase2_ticks (Suc n) s =
     (if moveStateX s = 2 then
        (case calcSteps s of
           None \<Rightarrow> None
         | Some (b, s1) \<Rightarrow> phase2_ticks n s1)
      else None)"

subsection \<open>Concrete states\<close>

text \<open>
  A motor as a sketch sets it up: direction pin 8, step pin 9, the documented maximum
  velocity of 100000 counts/s and maximum acceleration of 2000000 counts/s/s, enabled.
\<close>

definition example_motor :: ClearPathMotorSD where
  "example_motor =
     enable (setMaxAccel 2000000 (setMaxVel 100000
       (attach2 8 9 (ClearPathMotorSD_init False 0 0))))"

text \<open>The state one tick after \<^verbatim>\<open>move(1)\<close> on that motor: the move is already complete.\<close>

definition after_short_move :: ClearPathMotorSD where
  "after_short_move =
     example_motor\<lparr>AbsPosition := - 1, BurstX := 1, StepsSent := 1024, TX := 1,
       AccelRefQxS := 512, MovePosnQx := 1024, TargetPosnQx := 1024,
       TriangleMovePeakQx := 512\<rparr>"

text \<open>
  The states five and six ticks after \<^verbatim>\<open>move(10)\<close> on that motor: the last tick of the
  first half of the move, and the first tick of the second half.
\<close>

definition ramp_up_end :: ClearPathMotorSD where
  "ramp_up_end =
     example_motor\<lparr>moveStateX := 1, AbsPosition := - 6, CommandX := 10, BurstX := 3,
       StepsSent := 6144, VelRefQx := 2560, AccelRefQx := 512, TX := 5, flag := True,
       AccelRefQxS := 512, MovePosnQx := 6144, TargetPosnQx := 10240,
       TriangleMovePeakQx := 5120\<rparr>"

definition ramp_down_start :: ClearPathMotorSD where
  "ramp_down_start =
     example_motor\<lparr>moveStateX := 2, AbsPosition := - 8, CommandX := 10, BurstX := 2,
       StepsSent := 8192, VelRefQx := 3072, AccelRefQx := - 512,
       TX := 6, TX1 := 6, TX2 := 6, TX3 := 6, TAUX := 12, flag := True,
       AccelRefQxS := 512, MovePosnQx := 8960, TargetPosnQx := 10240,
       TriangleMovePeakQx := 5120\<rparr>"

text \<open>
  The state eight ticks after \<^verbatim>\<open>move(10)\<close>: the move completed on the seventh tick, and
  the eighth was an idle tick.
\<close>

definition idle_after_move :: ClearPathMotorSD where
  "idle_after_move =
     example_motor\<lparr>AbsPosition := - 10, TAUX := 12, flag := True, AccelRefQxS := 512,
       TargetPosnQx := 10240, TriangleMovePeakQx := 5120\<rparr>"

text \<open>
  The same set-up for a motor attached with its step pin only (\<^verbatim>\<open>attach(9)\<close>, so
  \<^verbatim>\<open>PinA == 0\<close>), whose \<^verbatim>\<open>_direction\<close> happens to hold \<^verbatim>\<open>true\<close>.
\<close>

definition motor_without_direction_pin :: ClearPathMotorSD where
  "motor_without_direction_pin =
     enable (setMaxAccel 2000000 (setMaxVel 100000
       (attach1 9 (ClearPathMotorSD_init True 0 0))))"

text \<open>
  \<open>trace n\<close> lists \<^verbatim>\<open>moveStateX\<close>, \<^verbatim>\<open>MovePosnQx\<close> and \<^verbatim>\<open>TriangleMovePeakQx\<close> as they
  are after each of \<open>n\<close> successive calls of \<^verbatim>\<open>calcSteps\<close>.
\<close>

fun trace :: "nat \<Rightarrow> ClearPathMotorSD \<Rightarrow> (int \<times> uint32_t \<times> long) list" where
  "trace 0 s = []"
| "trace (Suc n) s =
     (case calcSteps s of
        None \<Rightarrow> []
      | Some (b, s1) \<Rightarrow> (moveStateX s1, MovePosnQx s1, TriangleMovePeakQx s1) # trace n s1)"

section \<open>Evaluation of concrete runs\<close>

lemmas eval_defs =
  setMaxAccel_def setMaxVel_def enable_def attach1_def attach2_def ClearPathMotorSD_init_def
  move_def moveFast_def stopMove_def commandDone_def
  calcSteps_def switch_moveStateX_def case1_def case2_def case3_def case4_def burst_def
  shl_def shr_unsigned_def sdiv_long_def labs_def abs_long_def abs_uint32_def
  signed_divide_int_def Let_def word_sless_alt word_sle_eq

lemma ticks_numeral:
  "ticks (numeral k) s =
     (case calcSteps s of
        None \<Rightarrow> None
      | Some (b, s1) \<Rightarrow>
          (case ticks (pred_numeral k) s1 of
             None \<Rightarrow> None
           | Some (bs, s2) \<Rightarrow> Some (b # bs, s2)))"
  by (simp add: numeral_eq_Suc)

lemma ticks_1:
  "ticks 1 s = (case calcSteps s of None \<Rightarrow> None | Some (b, s1) \<Rightarrow> Some ([b], s1))"
  unfolding One_nat_def by (simp split: option.splits)

lemma trace_numeral:
  "trace (numeral k) s =
     (case calcSteps s of
        None \<Rightarrow> []
      | Some (b, s1) \<Rightarrow>
          (moveStateX s1, MovePosnQx s1, TriangleMovePeakQx s1) # trace (pred_numeral k) s1)"
  by (simp add: numeral_eq_Suc)

lemma phase2_ticks_1:
  "phase2_ticks 1 s =
     (if moveStateX s = 2 then
        (case calcSteps s of None \<Rightarrow> None | Some (b, s1) \<Rightarrow> Some s1)
      else None)"
  unfolding One_nat_def by (simp split: option.splits)

lemma example_motor_eq:
  "example_motor =
     \<lparr>PinA = 8, PinB = 9, PinE = 0, PinH = 0, Enabled = True, moveStateX = 3,
      AbsPosition = 0, CommandX = 0, direction = False, BurstX = 0,
      VelLimitQx = 51200, AccLimitQx = 512, StepsSent = 0, VelRefQx = 0,
      AccelRefQx = 0, TX = 0, TX1 = 0, TX2 = 0, TX3 = 0, TAUX = 0,
      flag = False, AccelRefQxS = 0, MovePosnQx = 0, TargetPosnQx = 0,
      TriangleMovePeakQx = 0, minAbsPosition = 0, maxAbsPosition = 54400,
      fractionalBits = 10, decelDistanceQx = 0, decelAbsDistance = 0\<rparr>"
  by (simp add: example_motor_def eval_defs)

lemma motor_without_direction_pin_eq:
  "motor_without_direction_pin = example_motor\<lparr>PinA := 0, direction := True\<rparr>"
  by (simp add: motor_without_direction_pin_def example_motor_eq eval_defs)

lemma short_move_run:
  "ticks 1 (snd (move 1 example_motor)) = Some ([1], after_short_move)"
  by (simp add: example_motor_eq after_short_move_def eval_defs ticks_1)

lemma ramp_up_run:
  "ticks 5 (snd (move 10 example_motor)) = Some ([0, 0, 2, 1, 3], ramp_up_end)"
  by (simp add: example_motor_eq ramp_up_end_def eval_defs ticks_numeral)

lemma transition_tick:
  "calcSteps ramp_up_end = Some (2, ramp_down_start)"
  by (simp add: example_motor_eq ramp_up_end_def ramp_down_start_def eval_defs)

lemma ordinary_move_adds_up:
  "map_option (sum_list \<circ> fst) (ticks 22 (snd (move 100 example_motor))) = Some 100
   \<and> map_option (commandDone \<circ> snd) (ticks 21 (snd (move 100 example_motor))) = Some False
   \<and> map_option (commandDone \<circ> snd) (ticks 22 (snd (move 100 example_motor))) = Some True"
  by (simp add: example_motor_eq eval_defs ticks_numeral)

section \<open>Facts about single ticks\<close>

lemmas case_defs =
  switch_moveStateX_def case1_def case2_def case3_def case4_def case6_def case7_def

lemma switch_keeps_direction:
  "switch_moveStateX s = Some t \<Longrightarrow>
     direction t = direction s \<and> AbsPosition t = AbsPosition s
     \<and> fractionalBits t = fractionalBits s"
  by (auto simp add: case_defs Let_def split: if_splits option.splits)

lemma switch_StepsSent:
  "switch_moveStateX s = Some t \<Longrightarrow>
     StepsSent t = (if moveStateX s = 3 \<and> CommandX s = 0 then 0 else StepsSent s)"
  by (auto simp add: case_defs Let_def split: if_splits option.splits)

lemma burst_result:
  "burst t = (b, s') \<Longrightarrow>
     b = uint (ucast (shr_unsigned (MovePosnQx t - StepsSent t) (fractionalBits t)) :: uint8_t)
     \<and> direction s' = direction t
     \<and> MovePosnQx s' = MovePosnQx t
     \<and> AbsPosition s' = (if direction t then AbsPosition t + word_of_int b
                          else AbsPosition t - word_of_int b)"
  by (auto simp add: burst_def Let_def split: if_splits)

lemma calcSteps_cases:
  assumes "calcSteps s = Some (b, s')"
  obtains (disabled) "\<not> Enabled s" and "b = 0" and "s' = s\<lparr>TX := TX s + 1\<rparr>"
  | (enabled) t where "Enabled s" and "switch_moveStateX (s\<lparr>TX := TX s + 1\<rparr>) = Some t"
      and "burst t = (b, s')"
  using assms by (auto simp add: calcSteps_def Let_def split: if_splits option.splits)

lemma calcSteps_AbsPosition:
  assumes "calcSteps s = Some (b, s')"
  shows "direction s' = direction s \<and>
         AbsPosition s' = (if direction s then AbsPosition s + word_of_int b
                           else AbsPosition s - word_of_int b)"
  using assms
proof (cases rule: calcSteps_cases)
  case disabled
  then show ?thesis by simp
next
  case (enabled t)
  from switch_keeps_direction [OF enabled(2)] burst_result [OF enabled(3)]
  show ?thesis by simp
qed

lemma ticks_AbsPosition:
  "ticks n s = Some (bs, s') \<Longrightarrow>
     direction s' = direction s \<and>
     AbsPosition s' = (if direction s then AbsPosition s + word_of_int (sum_list bs)
                       else AbsPosition s - word_of_int (sum_list bs))"
proof (induction n arbitrary: s bs)
  case 0
  then show ?case by simp
next
  case (Suc n)
  from Suc.prems obtain b s1 cs where
    step: "calcSteps s = Some (b, s1)" and rest: "ticks n s1 = Some (cs, s')"
    and bs: "bs = b # cs"
    by (auto split: option.splits)
  from calcSteps_AbsPosition [OF step] Suc.IH [OF rest] bs show ?case
    by (simp split: if_splits)
qed

lemma phase2_tick_keeps_times:
  "moveStateX s = 2 \<Longrightarrow> calcSteps s = Some (b, s') \<Longrightarrow>
     TX1 s' = TX1 s \<and> TX2 s' = TX2 s \<and> TX3 s' = TX3 s \<and> TAUX s' = TAUX s"
  by (auto simp add: calcSteps_def switch_moveStateX_def case2_def burst_def Let_def
      split: if_splits)

lemma phase2_ticks_keep_times:
  "phase2_ticks n s = Some s' \<Longrightarrow>
     TX1 s' = TX1 s \<and> TX2 s' = TX2 s \<and> TX3 s' = TX3 s \<and> TAUX s' = TAUX s"
proof (induction n arbitrary: s)
  case 0
  then show ?case by simp
next
  case (Suc n)
  from Suc.prems obtain b s1 where ph: "moveStateX s = 2"
    and step: "calcSteps s = Some (b, s1)" and rest: "phase2_ticks n s1 = Some s'"
    by (auto split: if_splits option.splits)
  from phase2_tick_keeps_times [OF ph step] Suc.IH [OF rest] show ?case by simp
qed

lemma transition_sets_times:
  "moveStateX s = 1 \<Longrightarrow> calcSteps s = Some (b, s1) \<Longrightarrow> moveStateX s1 = 2 \<Longrightarrow>
     TX3 s1 = 2 * TX2 s1 - TX1 s1 \<and> TAUX s1 = 2 * TX2 s1"
  by (auto simp add: calcSteps_def switch_moveStateX_def case1_def burst_def Let_def
      push_bit_eq_mult split: if_splits)

lemma flag_stays_set:
  assumes "flag s"
  shows "calcSteps s = Some (b, s') \<Longrightarrow> flag s'"
    and "flag (stopMove s)" and "flag (snd (move d s))" and "flag (snd (moveFast d s))"
    and "flag (enable s)" and "flag (disable s)"
    and "flag (setMaxVel v s)" and "flag (setMaxAccel a s)"
    and "flag (setPositionLimits mn mx s)" and "flag (decelerateStopOverDistance x s)"
proof -
  have sw: "flag t'" if "switch_moveStateX t = Some t'" and "flag t" for t t'
    using that by (auto simp add: case_defs Let_def split: if_splits option.splits)
  show "flag s'" if "calcSteps s = Some (b, s')"
    using that
  proof (cases rule: calcSteps_cases)
    case disabled
    with assms show ?thesis by simp
  next
    case (enabled t)
    from sw [OF enabled(2)] assms have "flag t" by simp
    with enabled(3) show ?thesis
      by (auto simp add: burst_def Let_def split: if_splits)
  qed
  show "flag (stopMove s)" "flag (snd (move d s))" "flag (snd (moveFast d s))"
    "flag (enable s)" "flag (disable s)" "flag (setMaxVel v s)" "flag (setMaxAccel a s)"
    "flag (setPositionLimits mn mx s)" "flag (decelerateStopOverDistance x s)"
    using assms
    by (simp_all add: stopMove_def move_def moveFast_def enable_def disable_def
        setMaxVel_def setMaxAccel_def setPositionLimits_def decelerateStopOverDistance_def
        Let_def)
qed

section \<open>Words and their integer values\<close>

lemma sint_eq_uint_small:
  fixes w :: "32 word"
  assumes "uint w < 2 ^ 31"
  shows "sint w = uint w"
proof -
  have "sint w = signed_take_bit 31 (uint w)"
    by (simp add: sint_uint)
  also have "\<dots> = uint w"
  proof (rule signed_take_bit_int_eq_self)
    have "- (2 ^ 31) \<le> (0 :: int)" by simp
    also have "0 \<le> uint w" by simp
    finally show "- (2 ^ 31) \<le> uint w" .
    show "uint w < 2 ^ 31" by (fact assms)
  qed
  finally show ?thesis .
qed

lemma uint_eq_sint_nonneg:
  fixes w :: "32 word"
  assumes "0 \<le> sint w"
  shows "uint w = sint w"
proof -
  have "sint w < 2 ^ 32"
    using sint_lt [of w] by simp
  then have "take_bit 32 (sint w) = sint w"
    using assms by (simp add: take_bit_int_eq_self)
  then show ?thesis by (simp add: uint_sint)
qed

lemma uint_neg_eq:
  fixes d :: "32 word"
  assumes "sint d < 0"
  shows "uint (- d) = - sint d"
proof -
  have lo: "- (2 ^ 31) \<le> sint d" using sint_ge [of d] by simp
  have "uint (- d) = take_bit 32 (- uint d)"
    by (simp add: uint_word_arith_bintrs)
  also have "\<dots> = take_bit 32 (- take_bit 32 (sint d))"
    by (simp add: uint_sint)
  also have "\<dots> = take_bit 32 (- sint d)"
    by (simp add: take_bit_minus)
  also have "\<dots> = - sint d"
    using assms lo by (intro take_bit_int_eq_self) simp_all
  finally show ?thesis .
qed

lemma take_bit_small:
  fixes w :: "32 word"
  assumes "uint w < 2 ^ n"
  shows "take_bit n w = w"
proof -
  have "uint (take_bit n w) = uint w"
    using assms by (simp add: unsigned_take_bit_eq take_bit_int_eq_self)
  then show ?thesis by (simp add: word_uint_eq_iff)
qed

lemma uint_shl_small:
  fixes c :: "32 word"
  assumes "uint c < 2 ^ 22"
  shows "uint (push_bit 10 c) = 1024 * uint c"
proof -
  have "uint (push_bit 10 c) = take_bit 32 (uint c * 1024)"
    by (simp add: push_bit_eq_mult uint_word_arith_bintrs)
  also have "\<dots> = uint c * 1024"
    using assms by (intro take_bit_int_eq_self) simp_all
  finally show ?thesis by simp
qed

lemma sint_shl_21:
  fixes c :: "32 word"
  assumes "uint c < 2 ^ 21"
  shows "sint (push_bit 10 c) = 1024 * uint c"
proof -
  have u: "uint (push_bit 10 c) = 1024 * uint c"
    using assms by (intro uint_shl_small) simp
  with assms have "uint (push_bit 10 c) < 2 ^ 31" by simp
  from sint_eq_uint_small [OF this] u show ?thesis by simp
qed

lemma sint_half_shl_21:
  fixes c :: "32 word"
  assumes "uint c < 2 ^ 21"
  shows "sint (signed_drop_bit 1 (push_bit 10 c)) = 512 * uint c"
  using sint_shl_21 [OF assms] by (simp add: sint_signed_drop_bit_eq drop_bit_eq_div)

lemma sint_times_1024:
  fixes w :: "32 word"
  assumes "0 \<le> sint w" and "sint w < 2 ^ 21"
  shows "sint (w * 1024) = sint w * 1024"
proof -
  have u: "uint w = sint w"
    by (rule uint_eq_sint_nonneg) (fact assms(1))
  have "uint (w * 1024) = take_bit 32 (uint w * 1024)"
    by (simp add: uint_word_arith_bintrs)
  also have "\<dots> = uint w * 1024"
    using assms u by (intro take_bit_int_eq_self) simp_all
  finally have m: "uint (w * 1024) = sint w * 1024"
    by (simp add: u)
  with assms have "uint (w * 1024) < 2 ^ 31"
    by simp
  from sint_eq_uint_small [OF this] m show ?thesis
    by simp
qed

lemma sdiv_nonneg:
  fixes k l :: int
  assumes "0 \<le> k" and "0 < l"
  shows "k sdiv l = k div l"
  using assms by (cases "k = 0") (simp_all add: signed_divide_int_def)

lemma div_2000_less:
  fixes k :: int
  shows "k div 2000 < 51 \<longleftrightarrow> k < 102000"
proof -
  define q r where "q = k div 2000" and "r = k mod 2000"
  have "k = q * 2000 + r" "0 \<le> r" "r < 2000"
    by (simp_all add: q_def r_def)
  then show ?thesis
    unfolding q_def [symmetric] by arith
qed

lemma drop_push_10: "drop_bit 10 (push_bit 10 (w :: 32 word)) = take_bit 22 w"
  by (rule bit_word_eqI) (auto simp add: bit_simps)

lemma uint_ucast_8: "uint (ucast (w :: 32 word) :: 8 word) = uint w mod 256"
  by (simp add: unsigned_ucast_eq take_bit_eq_mod)

lemma ucast_ucast_8: "(ucast (ucast (w :: 32 word) :: 8 word) :: 32 word) = take_bit 8 w"
  by (rule bit_word_eqI) (auto simp add: bit_simps)

section \<open>The claims\<close>

subsection \<open>C1: the bursts of a command do not always add up to its distance\<close>

text \<open>
  C1 says that the bursts returned from the acceptance of a command until
  \<^verbatim>\<open>commandDone()\<close> add up to \<open>|d|\<close>. The code does that for an ordinary move (the 22
  ticks of \<^verbatim>\<open>move(100)\<close> add up to 100, lemma \<open>ordinary_move_adds_up\<close>) but not for every
  command. \<^verbatim>\<open>moveFast(300)\<close> is
  accepted by the example motor, and the single tick that follows returns 44 and clears
  the command: case 4 puts \<^verbatim>\<open>MovePosnQx\<close> on the target before it tests whether more than
  50 steps are left, so the whole distance is due on one tick, and the 8-bit \<^verbatim>\<open>_BurstX\<close>
  keeps \<open>300 mod 256\<close> of it. \<^verbatim>\<open>move(2)\<close> on the same motor takes five ticks that return
  0, 0, 2, 1 and 255: the ramp runs past the target before the second half begins, and the
  last burst is the negative difference \<open>-1\<close> read as an unsigned 8-bit value.
\<close>

theorem bursts_do_not_add_up:
  "CommandX example_motor = 0
   \<and> fst (moveFast 300 example_motor)
   \<and> \<not> commandDone (snd (moveFast 300 example_motor))
   \<and> ticks 1 (snd (moveFast 300 example_motor)) =
        Some ([44], example_motor\<lparr>AbsPosition := - 44, BurstX := 44, StepsSent := 45056,
                      TX := 1, MovePosnQx := 307200, TargetPosnQx := 307200\<rparr>)
   \<and> commandDone (example_motor\<lparr>AbsPosition := - 44, BurstX := 44, StepsSent := 45056,
                      TX := 1, MovePosnQx := 307200, TargetPosnQx := 307200\<rparr>)
   \<and> sum_list [44 :: int] \<noteq> 300
   \<and> fst (move 2 example_motor)
   \<and> map_option fst (ticks 4 (snd (move 2 example_motor))) = Some [0, 0, 2, 1]
   \<and> map_option (commandDone \<circ> snd) (ticks 4 (snd (move 2 example_motor))) = Some False
   \<and> map_option fst (ticks 5 (snd (move 2 example_motor))) = Some [0, 0, 2, 1, 255]
   \<and> map_option (commandDone \<circ> snd) (ticks 5 (snd (move 2 example_motor))) = Some True
   \<and> sum_list [0, 0, 2, 1, 255 :: int] \<noteq> 2"
proof -
  let ?done = "example_motor\<lparr>AbsPosition := - 44, BurstX := 44, StepsSent := 45056,
                      TX := 1, MovePosnQx := 307200, TargetPosnQx := 307200\<rparr>"
  have f1: "CommandX example_motor = 0"
    by (simp add: example_motor_eq)
  have f2: "fst (moveFast 300 example_motor)"
    by (simp add: example_motor_eq eval_defs)
  have f3: "\<not> commandDone (snd (moveFast 300 example_motor))"
    by (simp add: example_motor_eq eval_defs)
  have f4: "ticks 1 (snd (moveFast 300 example_motor)) = Some ([44], ?done)"
    by (simp add: example_motor_eq eval_defs ticks_1)
  have f5: "commandDone ?done"
    by (simp add: example_motor_eq commandDone_def)
  have f6: "sum_list [44 :: int] \<noteq> 300"
    by simp
  have f7: "fst (move 2 example_motor)"
    by (simp add: example_motor_eq eval_defs)
  have f8: "map_option fst (ticks 4 (snd (move 2 example_motor))) = Some [0, 0, 2, 1]"
    by (simp add: example_motor_eq eval_defs ticks_numeral)
  have f9: "map_option (commandDone \<circ> snd) (ticks 4 (snd (move 2 example_motor))) = Some False"
    by (simp add: example_motor_eq eval_defs ticks_numeral)
  have f10: "map_option fst (ticks 5 (snd (move 2 example_motor))) = Some [0, 0, 2, 1, 255]"
    by (simp add: example_motor_eq eval_defs ticks_numeral)
  have f11: "map_option (commandDone \<circ> snd) (ticks 5 (snd (move 2 example_motor))) = Some True"
    by (simp add: example_motor_eq eval_defs ticks_numeral)
  have f12: "sum_list [0, 0, 2, 1, 255 :: int] \<noteq> 2"
    by simp
  from f1 f2 f3 f4 f5 f6 f7 f8 f9 f10 f11 f12 show ?thesis
    by (intro conjI)
qed

subsection \<open>C2: a short move completes in one tick\<close>

text \<open>
  C2 says that a short move changes \<^verbatim>\<open>AbsPosition\<close> by \<open>d\<close>. With the acceleration limit
  at 512, \<^verbatim>\<open>move(1)\<close> is short (half of \<open>1 << 10\<close> is 512) and is accepted by the idle
  motor; the one tick that processes it completes it, with \<^verbatim>\<open>AbsPosition\<close> going from 0
  to \<open>-1\<close>, not to 1: \<^verbatim>\<open>move\<close> sets \<^verbatim>\<open>_direction\<close> to \<^verbatim>\<open>false\<close> for a distance that is not
  negative, and \<^verbatim>\<open>calcSteps\<close> subtracts the burst when \<^verbatim>\<open>_direction\<close> is \<^verbatim>\<open>false\<close>.
\<close>

theorem short_move_goes_backwards:
  "Enabled example_motor \<and> moveStateX example_motor = 3 \<and> CommandX example_motor = 0
   \<and> AccLimitQx example_motor = 512 \<and> AbsPosition example_motor = 0
   \<and> fst (move 1 example_motor)
   \<and> ticks 1 (snd (move 1 example_motor)) = Some ([1], after_short_move)
   \<and> TriangleMovePeakQx after_short_move \<le>s AccLimitQx after_short_move
   \<and> CommandX after_short_move = 0
   \<and> AbsPosition after_short_move = - 1
   \<and> AbsPosition after_short_move \<noteq> AbsPosition example_motor + 1"
proof -
  have "Enabled example_motor \<and> moveStateX example_motor = 3 \<and> CommandX example_motor = 0
   \<and> AccLimitQx example_motor = 512 \<and> AbsPosition example_motor = 0
   \<and> fst (move 1 example_motor)"
    by (simp add: example_motor_eq move_def word_sless_alt)
  moreover have "TriangleMovePeakQx after_short_move \<le>s AccLimitQx after_short_move
   \<and> CommandX after_short_move = 0
   \<and> AbsPosition after_short_move = - 1
   \<and> AbsPosition after_short_move \<noteq> AbsPosition example_motor + 1"
    by (simp add: after_short_move_def example_motor_eq word_sle_eq)
  ultimately show ?thesis
    using short_move_run by (intro conjI) (elim conjE, assumption)+
qed

text \<open>
  C2, amended. Let the motor be enabled and idle (\<^verbatim>\<open>moveStateX == 3\<close>, no command) with 10
  fractional bits, and let \<open>d\<close> be a distance other than 0 with \<open>|d| < 2\<^bsup>21\<^esup>\<close> whose
  half in Q-format is at most the acceleration limit (\<open>512 * |d| \<le> AccLimitQx\<close>). Then
  \<^verbatim>\<open>move(d)\<close> is accepted and the one call of \<^verbatim>\<open>calcSteps\<close> that processes it completes it:
  \<^verbatim>\<open>MovePosnQx\<close> is the target \<open>|d| << 10\<close>, velocity and acceleration are 0, the command is
  cleared and \<^verbatim>\<open>moveStateX\<close> stays 3. If moreover a direction pin is attached,
  \<^verbatim>\<open>StepsSent\<close> is 0 (as an idle tick leaves it) and \<open>|d| < 256\<close>, that call returns \<open>|d|\<close>
  and changes \<^verbatim>\<open>AbsPosition\<close> by \<open>- d\<close>.
\<close>

theorem short_move_one_tick:
  assumes en: "Enabled s" and idle: "moveStateX s = 3" "CommandX s = 0"
    and fb: "fractionalBits s = 10"
    and d: "d \<noteq> 0" "\<bar>sint d\<bar> < 2 ^ 21"
    and short: "512 * \<bar>sint d\<bar> \<le> sint (AccLimitQx s)"
  shows "fst (move d s) \<and>
    (case calcSteps (snd (move d s)) of
       None \<Rightarrow> False
     | Some (b, s') \<Rightarrow>
         MovePosnQx s' = TargetPosnQx s' \<and> sint (TargetPosnQx s') = 1024 * \<bar>sint d\<bar> \<and>
         VelRefQx s' = 0 \<and> AccelRefQx s' = 0 \<and> CommandX s' = 0 \<and> commandDone s' \<and>
         moveStateX s' = 3 \<and>
         (StepsSent s = 0 \<and> PinA s \<noteq> 0 \<and> \<bar>sint d\<bar> < 256 \<longrightarrow>
            b = \<bar>sint d\<bar> \<and> AbsPosition s' = AbsPosition s - d))"
proof -
  define c where "c = (if d <s 0 then - d else d)"
  have uc: "uint c = \<bar>sint d\<bar>"
    using d uint_neg_eq [of d] uint_eq_sint_nonneg [of d]
    by (auto simp add: c_def word_sless_alt)
  have c0: "c \<noteq> 0"
    using d by (auto simp add: c_def)
  have c21: "uint c < 2 ^ 21"
    using uc d by simp
  define s1 where "s1 = (if PinA s \<noteq> 0 then s\<lparr>direction := (d <s 0)\<rparr> else s)\<lparr>CommandX := c\<rparr>"
  have mv: "move d s = (True, s1)"
    using idle by (simp add: move_def s1_def c_def Let_def)
  have frame: "Enabled s1" "moveStateX s1 = 3" "CommandX s1 = c" "fractionalBits s1 = 10"
    "StepsSent s1 = StepsSent s" "AccLimitQx s1 = AccLimitQx s"
    "AbsPosition s1 = AbsPosition s" "PinA s \<noteq> 0 \<Longrightarrow> direction s1 = (d <s 0)"
    using en idle fb by (simp_all add: s1_def)
  have T: "sint (push_bit 10 c) = 1024 * uint c"
    by (rule sint_shl_21 [OF c21])
  have H: "sint (signed_drop_bit 1 (push_bit 10 c)) = 512 * uint c"
    by (rule sint_half_shl_21 [OF c21])
  have "sint d \<noteq> 0"
    using d by (simp add: signed_eq_0_iff)
  then have pos: "0 < uint c"
    using uc by simp
  have c22: "take_bit 22 c = c"
    using c21 by (intro take_bit_small) simp
  have small: "uint c < 256 \<Longrightarrow> take_bit 8 c = c \<and> uint (ucast c :: uint8_t) = uint c"
    by (simp add: take_bit_small uint_ucast_8)
  have main: "case calcSteps s1 of
       None \<Rightarrow> False
     | Some (b, s') \<Rightarrow>
         MovePosnQx s' = TargetPosnQx s' \<and> sint (TargetPosnQx s') = 1024 * uint c \<and>
         VelRefQx s' = 0 \<and> AccelRefQx s' = 0 \<and> CommandX s' = 0 \<and> commandDone s' \<and>
         moveStateX s' = 3 \<and>
         (StepsSent s = 0 \<and> PinA s \<noteq> 0 \<and> uint c < 256 \<longrightarrow>
            b = uint c \<and>
            AbsPosition s' = (if d <s 0 then AbsPosition s + c else AbsPosition s - c))"
    using frame c0 T H pos short [folded uc] small
    by (simp add: calcSteps_def switch_moveStateX_def case3_def burst_def
        shl_def shr_unsigned_def abs_long_def commandDone_def Let_def
        word_sless_alt word_sle_eq drop_push_10 c22 ucast_ucast_8)
  have signs: "(if d <s 0 then AbsPosition s + c else AbsPosition s - c) = AbsPosition s - d"
    by (simp add: c_def)
  from main show ?thesis
    unfolding mv signs uc by simp
qed

text \<open>\<^verbatim>\<open>move(-1)\<close> on the example motor: one tick, one step, \<^verbatim>\<open>AbsPosition\<close> from 0 to 1.\<close>

theorem short_move_one_tick_witness:
  "Enabled example_motor \<and> moveStateX example_motor = 3 \<and> CommandX example_motor = 0
   \<and> fractionalBits example_motor = 10
   \<and> (- 1 :: long) \<noteq> 0 \<and> \<bar>sint (- 1 :: long)\<bar> < 2 ^ 21
   \<and> 512 * \<bar>sint (- 1 :: long)\<bar> \<le> sint (AccLimitQx example_motor)
   \<and> StepsSent example_motor = 0 \<and> PinA example_motor \<noteq> 0 \<and> \<bar>sint (- 1 :: long)\<bar> < 256
   \<and> AbsPosition example_motor = 0
   \<and> fst (move (- 1) example_motor)
   \<and> (case calcSteps (snd (move (- 1) example_motor)) of
         None \<Rightarrow> False
       | Some (b, s') \<Rightarrow>
           MovePosnQx s' = TargetPosnQx s' \<and> sint (TargetPosnQx s') = 1024 \<and>
           VelRefQx s' = 0 \<and> AccelRefQx s' = 0 \<and> CommandX s' = 0 \<and>
           b = 1 \<and> AbsPosition s' = 1)"
proof -
  have h: "Enabled example_motor" "moveStateX example_motor = 3" "CommandX example_motor = 0"
    "fractionalBits example_motor = 10"
    by (simp_all add: example_motor_eq)
  have d: "(- 1 :: long) \<noteq> 0" "\<bar>sint (- 1 :: long)\<bar> < 2 ^ 21"
    by simp_all
  have short: "512 * \<bar>sint (- 1 :: long)\<bar> \<le> sint (AccLimitQx example_motor)"
    by (simp add: example_motor_eq)
  have more: "StepsSent example_motor = 0" "PinA example_motor \<noteq> 0"
    "\<bar>sint (- 1 :: long)\<bar> < 256" "AbsPosition example_motor = 0"
    by (simp_all add: example_motor_eq)
  from short_move_one_tick [OF h d short]
  have "fst (move (- 1) example_motor)
   \<and> (case calcSteps (snd (move (- 1) example_motor)) of
         None \<Rightarrow> False
       | Some (b, s') \<Rightarrow>
           MovePosnQx s' = TargetPosnQx s' \<and> sint (TargetPosnQx s') = 1024 \<and>
           VelRefQx s' = 0 \<and> AccelRefQx s' = 0 \<and> CommandX s' = 0 \<and>
           b = 1 \<and> AbsPosition s' = 1)"
    using more by (auto split: option.splits)
  with h d short more show ?thesis
    by (intro conjI) (elim conjE, assumption)+
qed

subsection \<open>C3: a command is rejected while another is outstanding\<close>

text \<open>
  C3. In every state with a command outstanding (\<^verbatim>\<open>CommandX != 0\<close>, so \<^verbatim>\<open>commandDone()\<close>
  is false), \<^verbatim>\<open>move\<close> and \<^verbatim>\<open>moveFast\<close> with any argument return \<^verbatim>\<open>false\<close> and leave the
  whole state of the motor as it was.
\<close>

theorem move_rejected_while_busy:
  "CommandX s \<noteq> 0 \<Longrightarrow>
     \<not> commandDone s \<and> move dist s = (False, s) \<and> moveFast dist s = (False, s)"
  by (simp add: move_def moveFast_def commandDone_def)

text \<open>In the middle of a move of 10 counts, a further command of 25 counts is rejected.\<close>

theorem move_rejected_while_busy_witness:
  "CommandX ramp_up_end \<noteq> 0 \<and> \<not> commandDone ramp_up_end
     \<and> move 25 ramp_up_end = (False, ramp_up_end)
     \<and> moveFast 25 ramp_up_end = (False, ramp_up_end)"
proof -
  have busy: "CommandX ramp_up_end \<noteq> 0"
    by (simp add: ramp_up_end_def)
  from busy move_rejected_while_busy [OF busy, of 25] show ?thesis
    by (intro conjI) (elim conjE, assumption)+
qed

subsection \<open>C4: the times of the ramp are symmetric\<close>

text \<open>
  C4. On the tick that takes a move from its first half (\<^verbatim>\<open>moveStateX == 1\<close>) to its second
  half (\<^verbatim>\<open>moveStateX == 2\<close>) the counters satisfy \<^verbatim>\<open>_TX3 = 2*_TX2 - _TX1\<close> and
  \<^verbatim>\<open>_TAUX = 2*_TX2\<close> (in the 32-bit arithmetic of the counters), and both equations still
  hold after any number of further ticks taken in the second half, the tick that completes
  the move included.
\<close>

theorem ramp_times_symmetric:
  assumes "moveStateX s = 1" and "calcSteps s = Some (b, s1)" and "moveStateX s1 = 2"
    and "phase2_ticks n s1 = Some s2"
  shows "TX3 s1 = 2 * TX2 s1 - TX1 s1 \<and> TAUX s1 = 2 * TX2 s1
       \<and> TX3 s2 = 2 * TX2 s2 - TX1 s2 \<and> TAUX s2 = 2 * TX2 s2"
  using transition_sets_times [OF assms(1-3)] phase2_ticks_keep_times [OF assms(4)]
  by simp

text \<open>
  The move of 10 counts: the sixth tick enters the second half, and the seventh completes
  the move with \<^verbatim>\<open>_TX1 = _TX2 = _TX3 = 6\<close> and \<^verbatim>\<open>_TAUX = 12\<close>.
\<close>

theorem ramp_times_symmetric_witness:
  "moveStateX ramp_up_end = 1 \<and> calcSteps ramp_up_end = Some (2, ramp_down_start)
   \<and> moveStateX ramp_down_start = 2
   \<and> phase2_ticks 1 ramp_down_start =
       Some (idle_after_move\<lparr>BurstX := 2, StepsSent := 10240, TX := 7, TX1 := 6, TX2 := 6,
               TX3 := 6, MovePosnQx := 10240\<rparr>)
   \<and> CommandX (idle_after_move\<lparr>BurstX := 2, StepsSent := 10240, TX := 7, TX1 := 6, TX2 := 6,
               TX3 := 6, MovePosnQx := 10240\<rparr>) = 0
   \<and> (TX3 ramp_down_start = 2 * TX2 ramp_down_start - TX1 ramp_down_start
      \<and> TAUX ramp_down_start = 2 * TX2 ramp_down_start
      \<and> TX3 (idle_after_move\<lparr>BurstX := 2, StepsSent := 10240, TX := 7, TX1 := 6, TX2 := 6,
               TX3 := 6, MovePosnQx := 10240\<rparr>)
         = 2 * TX2 (idle_after_move\<lparr>BurstX := 2, StepsSent := 10240, TX := 7, TX1 := 6,
               TX2 := 6, TX3 := 6, MovePosnQx := 10240\<rparr>)
           - TX1 (idle_after_move\<lparr>BurstX := 2, StepsSent := 10240, TX := 7, TX1 := 6,
               TX2 := 6, TX3 := 6, MovePosnQx := 10240\<rparr>)
      \<and> TAUX (idle_after_move\<lparr>BurstX := 2, StepsSent := 10240, TX := 7, TX1 := 6, TX2 := 6,
               TX3 := 6, MovePosnQx := 10240\<rparr>)
         = 2 * TX2 (idle_after_move\<lparr>BurstX := 2, StepsSent := 10240, TX := 7, TX1 := 6,
               TX2 := 6, TX3 := 6, MovePosnQx := 10240\<rparr>))"
proof -
  let ?done = "idle_after_move\<lparr>BurstX := 2, StepsSent := 10240, TX := 7, TX1 := 6, TX2 := 6,
               TX3 := 6, MovePosnQx := 10240\<rparr>"
  have h1: "moveStateX ramp_up_end = 1"
    by (simp add: ramp_up_end_def)
  have h2: "calcSteps ramp_up_end = Some (2, ramp_down_start)"
    by (fact transition_tick)
  have h3: "moveStateX ramp_down_start = 2"
    by (simp add: ramp_down_start_def)
  have h4: "phase2_ticks 1 ramp_down_start = Some ?done"
    by (simp add: phase2_ticks_1 example_motor_eq idle_after_move_def ramp_down_start_def
        eval_defs)
  have h5: "CommandX ?done = 0"
    by (simp add: idle_after_move_def example_motor_eq)
  note ramp_times_symmetric [OF h1 h2 h3 h4]
  with h1 h2 h3 h4 h5 show ?thesis
    by (intro conjI) (elim conjE, assumption)+
qed

subsection \<open>C5: the one-tick lag at the half-way point is there for the first move only\<close>

text \<open>
  C5 says that every move enters its second half on the second tick on which
  \<^verbatim>\<open>MovePosnQx\<close> has reached \<^verbatim>\<open>TriangleMovePeakQx\<close>, never on the first. The code does that
  for the first move only: \<^verbatim>\<open>_flag\<close>, which holds the lag, is set on the first such tick and
  nothing ever clears it (lemma \<open>flag_stays_set\<close>). The traces are \<^verbatim>\<open>moveStateX\<close>,
  \<^verbatim>\<open>MovePosnQx\<close> and \<^verbatim>\<open>TriangleMovePeakQx\<close> after each tick. In the first \<^verbatim>\<open>move(10)\<close> of the example motor the
  position reaches the half-way 5120 on the fifth tick (6144) and the second half begins on
  the sixth. The same command after that move and an idle tick, or after \<^verbatim>\<open>stopMove\<close>, is
  in its second half on the fifth tick already, the first on which 5120 is reached.
\<close>

theorem later_moves_have_no_lag:
  "trace 6 (snd (move 10 example_motor)) =
     [(1, 0, 5120), (1, 768, 5120), (1, 2048, 5120), (1, 3840, 5120),
      (1, 6144, 5120), (2, 8960, 5120)]
   \<and> ticks 8 (snd (move 10 example_motor)) = Some ([0, 0, 2, 1, 3, 2, 2, 0], idle_after_move)
   \<and> flag idle_after_move
   \<and> fst (move 10 idle_after_move)
   \<and> trace 5 (snd (move 10 idle_after_move)) =
     [(1, 0, 5120), (1, 768, 5120), (1, 2048, 5120), (1, 3840, 5120), (2, 6144, 5120)]
   \<and> ticks 6 (snd (move 10 example_motor)) = Some ([0, 0, 2, 1, 3, 2], ramp_down_start)
   \<and> flag (stopMove ramp_down_start)
   \<and> fst (move 10 (stopMove ramp_down_start))
   \<and> trace 5 (snd (move 10 (stopMove ramp_down_start))) =
     [(1, 0, 5120), (1, 768, 5120), (1, 2048, 5120), (1, 3840, 5120), (2, 6144, 5120)]"
proof -
  have f1: "trace 6 (snd (move 10 example_motor)) =
     [(1, 0, 5120), (1, 768, 5120), (1, 2048, 5120), (1, 3840, 5120),
      (1, 6144, 5120), (2, 8960, 5120)]"
    by (simp add: example_motor_eq eval_defs trace_numeral)
  have f2: "ticks 8 (snd (move 10 example_motor)) =
      Some ([0, 0, 2, 1, 3, 2, 2, 0], idle_after_move)"
    by (simp add: example_motor_eq idle_after_move_def eval_defs ticks_numeral)
  have f3: "flag idle_after_move"
    by (simp add: idle_after_move_def)
  have f4: "fst (move 10 idle_after_move)"
    by (simp add: example_motor_eq idle_after_move_def eval_defs)
  have f5: "trace 5 (snd (move 10 idle_after_move)) =
     [(1, 0, 5120), (1, 768, 5120), (1, 2048, 5120), (1, 3840, 5120), (2, 6144, 5120)]"
    by (simp add: example_motor_eq idle_after_move_def eval_defs trace_numeral)
  have f6: "ticks 6 (snd (move 10 example_motor)) =
      Some ([0, 0, 2, 1, 3, 2], ramp_down_start)"
    by (simp add: example_motor_eq ramp_down_start_def eval_defs ticks_numeral)
  have f7: "flag (stopMove ramp_down_start)"
    by (simp add: ramp_down_start_def stopMove_def)
  have f8: "fst (move 10 (stopMove ramp_down_start))"
    by (simp add: example_motor_eq ramp_down_start_def eval_defs)
  have f9: "trace 5 (snd (move 10 (stopMove ramp_down_start))) =
     [(1, 0, 5120), (1, 768, 5120), (1, 2048, 5120), (1, 3840, 5120), (2, 6144, 5120)]"
    by (simp add: example_motor_eq ramp_down_start_def eval_defs trace_numeral)
  from f1 f2 f3 f4 f5 f6 f7 f8 f9 show ?thesis
    by (intro conjI)
qed

subsection \<open>C6: what \<^verbatim>\<open>stopMove\<close> clears\<close>

text \<open>
  C6 says that \<^verbatim>\<open>stopMove\<close> zeroes position, velocity and acceleration and all the timing
  counters. It does not: stopped in the second half of the move of 10 counts, the
  acceleration \<^verbatim>\<open>AccelRefQx\<close> stays at \<open>-512\<close> and the total time \<^verbatim>\<open>_TAUX\<close> stays at 12.
\<close>

theorem stopMove_keeps_acceleration:
  "ticks 5 (snd (move 10 example_motor)) = Some ([0, 0, 2, 1, 3], ramp_up_end)
   \<and> calcSteps ramp_up_end = Some (2, ramp_down_start)
   \<and> (AccelRefQx (stopMove ramp_down_start) = - 512
      \<and> AccelRefQx (stopMove ramp_down_start) \<noteq> 0
      \<and> TAUX (stopMove ramp_down_start) = 12
      \<and> TAUX (stopMove ramp_down_start) \<noteq> 0)"
proof -
  have "AccelRefQx (stopMove ramp_down_start) = - 512
      \<and> AccelRefQx (stopMove ramp_down_start) \<noteq> 0
      \<and> TAUX (stopMove ramp_down_start) = 12
      \<and> TAUX (stopMove ramp_down_start) \<noteq> 0"
    by (simp add: ramp_down_start_def stopMove_def)
  with ramp_up_run transition_tick show ?thesis
    by (intro conjI) (elim conjE, assumption)+
qed

text \<open>
  C6, amended. In every state \<^verbatim>\<open>stopMove\<close> sets \<^verbatim>\<open>MovePosnQx\<close>, \<^verbatim>\<open>VelRefQx\<close>,
  \<^verbatim>\<open>StepsSent\<close>, \<^verbatim>\<open>_TX\<close>, \<^verbatim>\<open>_TX1\<close>, \<^verbatim>\<open>_TX2\<close>, \<^verbatim>\<open>_TX3\<close> and \<^verbatim>\<open>_BurstX\<close> to 0, clears the
  command (\<^verbatim>\<open>CommandX = 0\<close>, so \<^verbatim>\<open>commandDone()\<close> holds) and sets \<^verbatim>\<open>moveStateX\<close> to 3
  (idle); it leaves the acceleration \<^verbatim>\<open>AccelRefQx\<close> and the total time \<^verbatim>\<open>_TAUX\<close> as they
  were. In this model the update is a single step.
\<close>

theorem stopMove_clears:
  "MovePosnQx (stopMove s) = 0 \<and> VelRefQx (stopMove s) = 0 \<and> StepsSent (stopMove s) = 0
   \<and> TX (stopMove s) = 0 \<and> TX1 (stopMove s) = 0 \<and> TX2 (stopMove s) = 0
   \<and> TX3 (stopMove s) = 0 \<and> BurstX (stopMove s) = 0
   \<and> CommandX (stopMove s) = 0 \<and> commandDone (stopMove s) \<and> moveStateX (stopMove s) = 3
   \<and> AccelRefQx (stopMove s) = AccelRefQx s \<and> TAUX (stopMove s) = TAUX s"
  by (simp add: stopMove_def commandDone_def)

subsection \<open>C7: the limits are rescaled, and only the velocity is clamped\<close>

text \<open>
  C7 says that \<^verbatim>\<open>setMaxAccel\<close> clamps a value that is too large. It does not: the documented
  maximum 2000000 gives the limit 512, and the larger values 2050000 and 2090000 give 524
  and 535, the plain rescaling \<open>accelMax * 1024 / 4000000\<close> of each.
\<close>

theorem setMaxAccel_does_not_clamp:
  "AccLimitQx (setMaxAccel 2000000 example_motor) = 512
   \<and> AccLimitQx (setMaxAccel 2050000 example_motor) = 524
   \<and> AccLimitQx (setMaxAccel 2090000 example_motor) = 535
   \<and> AccLimitQx (setMaxAccel 2050000 example_motor)
        \<noteq> AccLimitQx (setMaxAccel 2090000 example_motor)"
  by (simp add: example_motor_eq setMaxAccel_def shl_def sdiv_long_def signed_divide_int_def)

text \<open>
  C7, amended. With 10 fractional bits and 32-bit \<^verbatim>\<open>int\<close>, for every \<open>velMax \<ge> 0\<close>
  \<^verbatim>\<open>setMaxVel\<close> stores the rescaled value \<open>velMax * 1024 div 2000\<close> if \<open>velMax < 102000\<close>
  (that is \<^verbatim>\<open>velMax/2000 < 51\<close>) and the fixed value \<open>50 * 1024 = 51200\<close> otherwise; and
  for every \<open>0 \<le> accelMax < 2\<^bsup>21\<^esup>\<close> (the values whose product with 1024 fits a
  \<^verbatim>\<open>long\<close>) \<^verbatim>\<open>setMaxAccel\<close> stores the rescaled value \<open>accelMax * 1024 div 4000000\<close>,
  with no clamp.
\<close>

theorem limits_rescaled:
  assumes fb: "fractionalBits s = 10"
    and v: "0 \<le> sint velMax"
    and a: "0 \<le> sint accelMax" "sint accelMax < 2 ^ 21"
  shows "VelLimitQx (setMaxVel velMax s) =
           (if sint velMax < 102000 then word_of_int (sint velMax * 1024 div 2000)
            else 51200)
       \<and> AccLimitQx (setMaxAccel accelMax s) = word_of_int (sint accelMax * 1024 div 4000000)"
proof -
  have one: "shl 1 (fractionalBits s) = 1024"
    by (simp add: fb shl_def)
  have q: "sint velMax sdiv 2000 = sint velMax div 2000"
    by (rule sdiv_nonneg) (use v in simp_all)
  have "sint velMax < 2 ^ 31"
    using sint_lt [of velMax] by simp
  with v have qb: "0 \<le> sint velMax div 2000" "sint velMax div 2000 < 2 ^ 31"
    by simp_all
  have "sint (sdiv_long velMax 2000) = signed_take_bit 31 (sint velMax div 2000)"
    by (simp add: sdiv_long_def q sint_sbintrunc')
  also have "\<dots> = sint velMax div 2000"
    using qb by (intro signed_take_bit_int_eq_self) simp_all
  finally have n: "sint (sdiv_long velMax 2000) = sint velMax div 2000" .
  have "sint velMax div 2000 < 51 \<longleftrightarrow> sint velMax < 102000"
    by (fact div_2000_less)
  then have test: "sdiv_long velMax 2000 <s 51 \<longleftrightarrow> sint velMax < 102000"
    by (simp add: word_sless_alt n)
  have vel: "sint velMax < 102000 \<Longrightarrow>
      sdiv_long (velMax * 1024) 2000 = word_of_int (sint velMax * 1024 div 2000)"
  proof -
    assume "sint velMax < 102000"
    with v have "sint (velMax * 1024) = sint velMax * 1024"
      by (intro sint_times_1024) simp_all
    then show ?thesis
      unfolding sdiv_long_def using v by (simp add: sdiv_nonneg)
  qed
  have acc: "sdiv_long (accelMax * 1024) 4000000 = word_of_int (sint accelMax * 1024 div 4000000)"
  proof -
    have "sint (accelMax * 1024) = sint accelMax * 1024"
      using a by (intro sint_times_1024) simp_all
    then show ?thesis
      unfolding sdiv_long_def using a by (simp add: sdiv_nonneg)
  qed
  show ?thesis
    using vel by (simp add: setMaxVel_def setMaxAccel_def Let_def one test acc)
qed

text \<open>
  101999 counts/s is above the documented maximum of 100000 and is stored rescaled, as
  52223; 102000 is stored as 51200. 2090000 counts/s/s is stored rescaled, as 535.
\<close>

theorem limits_rescaled_witness:
  "fractionalBits example_motor = 10
   \<and> 0 \<le> sint (101999 :: long) \<and> 0 \<le> sint (102000 :: long)
   \<and> 0 \<le> sint (2090000 :: long) \<and> sint (2090000 :: long) < 2 ^ 21
   \<and> VelLimitQx (setMaxVel 101999 example_motor) = 52223
   \<and> VelLimitQx (setMaxVel 102000 example_motor) = 51200
   \<and> AccLimitQx (setMaxAccel 2090000 example_motor) = 535"
proof -
  have fb: "fractionalBits example_motor = 10"
    by (simp add: example_motor_eq)
  have v1: "0 \<le> sint (101999 :: long)" and v2: "0 \<le> sint (102000 :: long)"
    by simp_all
  have a: "0 \<le> sint (2090000 :: long)" "sint (2090000 :: long) < 2 ^ 21"
    by simp_all
  from limits_rescaled [OF fb v1 a] limits_rescaled [OF fb v2 a]
  have "VelLimitQx (setMaxVel 101999 example_motor) = 52223
   \<and> VelLimitQx (setMaxVel 102000 example_motor) = 51200
   \<and> AccLimitQx (setMaxAccel 2090000 example_motor) = 535"
    by simp
  with fb v1 v2 a show ?thesis
    by (intro conjI) (elim conjE, assumption)+
qed

subsection \<open>C8: the idle tick\<close>

text \<open>
  C8 says that an idle tick leaves \<^verbatim>\<open>MovePosnQx\<close> unchanged and advances \<^verbatim>\<open>_TX\<close>. One tick
  after \<^verbatim>\<open>move(1)\<close> the motor is idle (no command, \<^verbatim>\<open>moveStateX == 3\<close>, enabled) with
  \<^verbatim>\<open>MovePosnQx = 1024\<close> and \<^verbatim>\<open>_TX = 1\<close>; the next tick sets both to 0. On the motor that
  has not moved yet \<^verbatim>\<open>_TX\<close> is 0 before an idle tick and 0 after it.
\<close>

theorem idle_tick_changes_position:
  "ticks 1 (snd (move 1 example_motor)) = Some ([1], after_short_move)
   \<and> Enabled after_short_move \<and> moveStateX after_short_move = 3
   \<and> CommandX after_short_move = 0
   \<and> MovePosnQx after_short_move = 1024 \<and> TX after_short_move = 1
   \<and> (case calcSteps after_short_move of
         None \<Rightarrow> False
       | Some (b, s') \<Rightarrow> MovePosnQx s' = 0 \<and> MovePosnQx s' \<noteq> MovePosnQx after_short_move
           \<and> TX s' = 0 \<and> TX s' \<noteq> TX after_short_move + 1)
   \<and> Enabled example_motor \<and> moveStateX example_motor = 3 \<and> CommandX example_motor = 0
   \<and> TX example_motor = 0
   \<and> (case calcSteps example_motor of
         None \<Rightarrow> False
       | Some (b, s') \<Rightarrow> TX s' = 0 \<and> TX s' \<noteq> TX example_motor + 1)"
proof -
  have "Enabled after_short_move \<and> moveStateX after_short_move = 3
    \<and> CommandX after_short_move = 0
    \<and> MovePosnQx after_short_move = 1024 \<and> TX after_short_move = 1"
    by (simp add: after_short_move_def example_motor_eq)
  moreover have "case calcSteps after_short_move of
         None \<Rightarrow> False
       | Some (b, s') \<Rightarrow> MovePosnQx s' = 0 \<and> MovePosnQx s' \<noteq> MovePosnQx after_short_move
           \<and> TX s' = 0 \<and> TX s' \<noteq> TX after_short_move + 1"
    by (simp add: after_short_move_def example_motor_eq calcSteps_def switch_moveStateX_def
        case3_def burst_def Let_def)
  moreover have "Enabled example_motor \<and> moveStateX example_motor = 3
    \<and> CommandX example_motor = 0 \<and> TX example_motor = 0"
    by (simp add: example_motor_eq)
  moreover have "case calcSteps example_motor of
         None \<Rightarrow> False
       | Some (b, s') \<Rightarrow> TX s' = 0 \<and> TX s' \<noteq> TX example_motor + 1"
    by (simp add: example_motor_eq calcSteps_def switch_moveStateX_def
        case3_def burst_def Let_def)
  ultimately show ?thesis
    using short_move_run by (intro conjI) (elim conjE, assumption)+
qed

text \<open>
  C8, amended. In every enabled state with no command (\<^verbatim>\<open>CommandX == 0\<close>) and
  \<^verbatim>\<open>moveStateX == 3\<close>, \<^verbatim>\<open>calcSteps\<close> returns 0 and leaves \<^verbatim>\<open>AbsPosition\<close> unchanged, and the
  motor stays idle; the call sets \<^verbatim>\<open>MovePosnQx\<close>, \<^verbatim>\<open>VelRefQx\<close>, \<^verbatim>\<open>StepsSent\<close>, \<^verbatim>\<open>_TX\<close>,
  \<^verbatim>\<open>_TX1\<close>, \<^verbatim>\<open>_TX2\<close>, \<^verbatim>\<open>_TX3\<close> and \<^verbatim>\<open>_BurstX\<close> to 0. So position and velocity are
  unchanged only where they were 0 already, and \<^verbatim>\<open>_TX\<close> does not advance: it is 0 after
  the tick.
\<close>

theorem idle_tick_resets:
  assumes "Enabled s" and "moveStateX s = 3" and "CommandX s = 0"
  shows "case calcSteps s of
           None \<Rightarrow> False
         | Some (b, s') \<Rightarrow>
             b = 0 \<and> AbsPosition s' = AbsPosition s
             \<and> MovePosnQx s' = 0 \<and> VelRefQx s' = 0 \<and> StepsSent s' = 0
             \<and> TX s' = 0 \<and> TX1 s' = 0 \<and> TX2 s' = 0 \<and> TX3 s' = 0 \<and> BurstX s' = 0
             \<and> CommandX s' = 0 \<and> moveStateX s' = 3"
  using assms
  by (simp add: calcSteps_def switch_moveStateX_def case3_def burst_def shl_def
      shr_unsigned_def Let_def)

theorem idle_tick_resets_witness:
  "Enabled after_short_move \<and> moveStateX after_short_move = 3
   \<and> CommandX after_short_move = 0
   \<and> (case calcSteps after_short_move of
           None \<Rightarrow> False
         | Some (b, s') \<Rightarrow>
             b = 0 \<and> AbsPosition s' = AbsPosition after_short_move
             \<and> MovePosnQx s' = 0 \<and> VelRefQx s' = 0 \<and> StepsSent s' = 0
             \<and> TX s' = 0 \<and> TX1 s' = 0 \<and> TX2 s' = 0 \<and> TX3 s' = 0 \<and> BurstX s' = 0
             \<and> CommandX s' = 0 \<and> moveStateX s' = 3)"
proof -
  have h1: "Enabled after_short_move"
    by (simp add: after_short_move_def example_motor_eq)
  have h2: "moveStateX after_short_move = 3"
    by (simp add: after_short_move_def example_motor_eq)
  have h3: "CommandX after_short_move = 0"
    by (simp add: after_short_move_def example_motor_eq)
  from h1 h2 h3 idle_tick_resets [OF h1 h2 h3] show ?thesis
    by (intro conjI)
qed

subsection \<open>C9: the burst is an 8-bit value\<close>

text \<open>
  C9. The value returned by \<^verbatim>\<open>calcSteps\<close> is always between 0 and 255. On a tick of an
  enabled motor it is the number of whole steps by which \<^verbatim>\<open>MovePosnQx\<close> is ahead of
  \<^verbatim>\<open>StepsSent\<close> (the difference shifted right by \<^verbatim>\<open>fractionalBits\<close>; \<^verbatim>\<open>StepsSent\<close> is 0 at
  that point on an idle tick) reduced modulo 256, and that reduced value is what is added
  to or subtracted from \<^verbatim>\<open>AbsPosition\<close>. In particular \<^verbatim>\<open>moveFast(d)\<close> with
  \<open>0 \<le> d < 2\<^bsup>21\<^esup>\<close>, accepted by an enabled motor with \<^verbatim>\<open>StepsSent == 0\<close> and 10
  fractional bits, is completed by the next tick, which puts \<^verbatim>\<open>MovePosnQx\<close> at \<open>d << 10\<close>,
  but returns and accounts for \<open>d mod 256\<close> steps only.
\<close>

theorem burst_reduced_mod_256:
  assumes "calcSteps s = Some (b, s')"
    and "Enabled s0" and "CommandX s0 = 0" and "StepsSent s0 = 0"
    and "fractionalBits s0 = 10" and "0 \<le> sint d" and "sint d < 2 ^ 21"
  shows "0 \<le> b \<and> b \<le> 255
    \<and> (if Enabled s
        then b = uint (shr_unsigned
                        (MovePosnQx s' -
                           (if moveStateX s = 3 \<and> CommandX s = 0 then 0 else StepsSent s))
                        (fractionalBits s)) mod 256
        else b = 0)
    \<and> AbsPosition s' = (if direction s then AbsPosition s + word_of_int b
                         else AbsPosition s - word_of_int b)
    \<and> fst (moveFast d s0)
    \<and> (case calcSteps (snd (moveFast d s0)) of
          None \<Rightarrow> False
        | Some (c, s1) \<Rightarrow>
            c = sint d mod 256 \<and> uint (MovePosnQx s1) = 1024 * sint d
            \<and> CommandX s1 = 0 \<and> moveStateX s1 = 3
            \<and> AbsPosition s1 =
                (if direction s1 then AbsPosition s0 + word_of_int (sint d mod 256)
                 else AbsPosition s0 - word_of_int (sint d mod 256)))"
proof -
  have rng: "0 \<le> b \<and> b \<le> 255"
    using assms(1)
  proof (cases rule: calcSteps_cases)
    case disabled
    then show ?thesis by simp
  next
    case (enabled t)
    from burst_result [OF enabled(3)] obtain B :: uint8_t where "b = uint B"
      by blast
    moreover have "uint B < 2 ^ 8"
      using uint_lt2p [of B] by simp
    ultimately show ?thesis by simp
  qed
  have val: "if Enabled s
        then b = uint (shr_unsigned
                        (MovePosnQx s' -
                           (if moveStateX s = 3 \<and> CommandX s = 0 then 0 else StepsSent s))
                        (fractionalBits s)) mod 256
        else b = 0"
    using assms(1)
  proof (cases rule: calcSteps_cases)
    case disabled
    then show ?thesis by simp
  next
    case (enabled t)
    from switch_StepsSent [OF enabled(2)] switch_keeps_direction [OF enabled(2)]
      burst_result [OF enabled(3)] enabled(1)
    show ?thesis
      by (simp add: shr_unsigned_def unsigned_ucast_eq take_bit_eq_mod)
  qed
  have ud: "uint d = sint d"
    by (rule uint_eq_sint_nonneg) (fact assms(6))
  with assms(7) have small: "uint d < 2 ^ 22"
    by simp
  have nn: "\<not> d <s 0"
    using assms(6) by (simp add: word_sless_alt)
  define s0' where "s0' = (if PinA s0 \<noteq> 0 then s0\<lparr>direction := False\<rparr> else s0)"
  have mf: "moveFast d s0 = (True, s0'\<lparr>moveStateX := 4, CommandX := d\<rparr>)"
    using assms(3) nn by (simp add: moveFast_def s0'_def Let_def)
  have frame: "Enabled s0'" "StepsSent s0' = 0" "fractionalBits s0' = 10"
    "AbsPosition s0' = AbsPosition s0"
    using assms(2,4,5) by (simp_all add: s0'_def)
  have d22: "take_bit 22 d = d"
    by (rule take_bit_small) (fact small)
  have cast: "(ucast (ucast d :: uint8_t) :: long) = word_of_int (uint d mod 256)"
  proof -
    have "(ucast (ucast d :: uint8_t) :: long) = word_of_int (uint (ucast d :: uint8_t))"
      by simp
    then show ?thesis by (simp only: uint_ucast_8)
  qed
  have fast: "case calcSteps (s0'\<lparr>moveStateX := 4, CommandX := d\<rparr>) of
          None \<Rightarrow> False
        | Some (c, s1) \<Rightarrow>
            c = uint d mod 256 \<and> uint (MovePosnQx s1) = 1024 * uint d
            \<and> CommandX s1 = 0 \<and> moveStateX s1 = 3
            \<and> AbsPosition s1 =
                (if direction s1 then AbsPosition s0 + word_of_int (uint d mod 256)
                 else AbsPosition s0 - word_of_int (uint d mod 256))"
    using frame uint_shl_small [OF small]
    by (simp add: calcSteps_def switch_moveStateX_def case4_def burst_def shl_def
        shr_unsigned_def Let_def drop_push_10 d22 uint_ucast_8 cast)
  from rng val calcSteps_AbsPosition [OF assms(1)] fast show ?thesis
    unfolding mf ud by simp
qed

text \<open>
  \<^verbatim>\<open>moveFast(300)\<close> on the example motor: the tick jumps to the target \<open>300 << 10\<close> and
  returns \<open>300 mod 256 = 44\<close>.
\<close>

theorem burst_reduced_mod_256_witness:
  "calcSteps (snd (moveFast 300 example_motor)) =
     Some (44, example_motor\<lparr>AbsPosition := - 44, BurstX := 44, StepsSent := 45056, TX := 1,
                 MovePosnQx := 307200, TargetPosnQx := 307200\<rparr>)
   \<and> Enabled example_motor \<and> CommandX example_motor = 0 \<and> StepsSent example_motor = 0
   \<and> fractionalBits example_motor = 10
   \<and> 0 \<le> sint (300 :: long) \<and> sint (300 :: long) < 2 ^ 21
   \<and> (0 \<le> (44 :: int) \<and> (44 :: int) \<le> 255)
   \<and> fst (moveFast 300 example_motor)
   \<and> (case calcSteps (snd (moveFast 300 example_motor)) of
          None \<Rightarrow> False
        | Some (c, s1) \<Rightarrow> c = 300 mod 256 \<and> uint (MovePosnQx s1) = 1024 * 300
            \<and> CommandX s1 = 0)"
proof -
  have h1: "calcSteps (snd (moveFast 300 example_motor)) =
     Some (44, example_motor\<lparr>AbsPosition := - 44, BurstX := 44, StepsSent := 45056, TX := 1,
                 MovePosnQx := 307200, TargetPosnQx := 307200\<rparr>)"
    by (simp add: example_motor_eq eval_defs)
  have h: "Enabled example_motor" "CommandX example_motor = 0" "StepsSent example_motor = 0"
    "fractionalBits example_motor = 10"
    by (simp_all add: example_motor_eq)
  have d: "0 \<le> sint (300 :: long)" "sint (300 :: long) < 2 ^ 21"
    by simp_all
  from burst_reduced_mod_256 [OF h1 h d]
  have "(0 \<le> (44 :: int) \<and> (44 :: int) \<le> 255)
   \<and> fst (moveFast 300 example_motor)
   \<and> (case calcSteps (snd (moveFast 300 example_motor)) of
          None \<Rightarrow> False
        | Some (c, s1) \<Rightarrow> c = 300 mod 256 \<and> uint (MovePosnQx s1) = 1024 * 300
            \<and> CommandX s1 = 0)"
    by (auto split: option.splits)
  with h1 h d show ?thesis
    by (intro conjI) (elim conjE, assumption)+
qed

subsection \<open>C10: without a direction pin the direction is stale\<close>

text \<open>
  C10. A command accepted by \<^verbatim>\<open>move\<close> or \<^verbatim>\<open>moveFast\<close> sets \<^verbatim>\<open>_direction\<close> (to \<^verbatim>\<open>true\<close>
  exactly for a negative distance) only if a direction pin is attached (\<^verbatim>\<open>PinA != 0\<close>);
  with \<^verbatim>\<open>PinA == 0\<close> it leaves \<^verbatim>\<open>_direction\<close> as it was, whatever the sign of the distance.
  Over any number of ticks after the command \<^verbatim>\<open>calcSteps\<close> adds the bursts to \<^verbatim>\<open>AbsPosition\<close>
  when that \<^verbatim>\<open>_direction\<close> is \<^verbatim>\<open>true\<close> and subtracts them when it is \<^verbatim>\<open>false\<close>, so without a
  direction pin the old direction decides the sign, not the new command.
\<close>

theorem direction_set_only_with_pin:
  assumes "CommandX s = 0"
    and "ticks n (snd (move d s)) = Some (bs, s1)"
    and "ticks m (snd (moveFast d s)) = Some (cs, s2)"
  shows "fst (move d s) \<and> fst (moveFast d s)
    \<and> direction (snd (move d s)) = (if PinA s \<noteq> 0 then d <s 0 else direction s)
    \<and> direction (snd (moveFast d s)) = (if PinA s \<noteq> 0 then d <s 0 else direction s)
    \<and> AbsPosition s1 =
        (if (if PinA s \<noteq> 0 then d <s 0 else direction s)
         then AbsPosition s + word_of_int (sum_list bs)
         else AbsPosition s - word_of_int (sum_list bs))
    \<and> AbsPosition s2 =
        (if (if PinA s \<noteq> 0 then d <s 0 else direction s)
         then AbsPosition s + word_of_int (sum_list cs)
         else AbsPosition s - word_of_int (sum_list cs))"
proof -
  have acc: "fst (move d s) \<and> fst (moveFast d s)"
    using assms(1) by (simp add: move_def moveFast_def Let_def)
  have dir: "direction (snd (move d s)) = (if PinA s \<noteq> 0 then d <s 0 else direction s)"
    "direction (snd (moveFast d s)) = (if PinA s \<noteq> 0 then d <s 0 else direction s)"
    using assms(1) by (simp_all add: move_def moveFast_def Let_def)
  have pos: "AbsPosition (snd (move d s)) = AbsPosition s"
    "AbsPosition (snd (moveFast d s)) = AbsPosition s"
    by (simp_all add: move_def moveFast_def Let_def)
  from ticks_AbsPosition [OF assms(2)] ticks_AbsPosition [OF assms(3)] acc dir pos
  show ?thesis by simp
qed

text \<open>
  On the motor without a direction pin, whose \<^verbatim>\<open>_direction\<close> holds \<^verbatim>\<open>true\<close>, \<^verbatim>\<open>move(1)\<close> and
  \<^verbatim>\<open>moveFast(1)\<close> leave \<^verbatim>\<open>_direction\<close> at \<^verbatim>\<open>true\<close>, and the step is added: \<^verbatim>\<open>AbsPosition\<close>
  goes from 0 to 1 (with the pin attached the same commands take it to \<open>-1\<close>).
\<close>

theorem direction_set_only_with_pin_witness:
  "CommandX motor_without_direction_pin = 0 \<and> PinA motor_without_direction_pin = 0
   \<and> direction motor_without_direction_pin \<and> AbsPosition motor_without_direction_pin = 0
   \<and> ticks 1 (snd (move 1 motor_without_direction_pin)) =
        Some ([1], after_short_move\<lparr>PinA := 0, direction := True, AbsPosition := 1\<rparr>)
   \<and> ticks 1 (snd (moveFast 1 motor_without_direction_pin)) =
        Some ([1], motor_without_direction_pin\<lparr>AbsPosition := 1, BurstX := 1,
                     StepsSent := 1024, TX := 1, MovePosnQx := 1024, TargetPosnQx := 1024\<rparr>)
   \<and> direction (snd (move 1 motor_without_direction_pin))
   \<and> direction (snd (moveFast 1 motor_without_direction_pin))
   \<and> AbsPosition (after_short_move\<lparr>PinA := 0, direction := True, AbsPosition := 1\<rparr>) = 0 + 1
   \<and> AbsPosition (motor_without_direction_pin\<lparr>AbsPosition := 1, BurstX := 1,
        StepsSent := 1024, TX := 1, MovePosnQx := 1024, TargetPosnQx := 1024\<rparr>) = 0 + 1"
proof -
  let ?s = motor_without_direction_pin
  let ?s1 = "after_short_move\<lparr>PinA := 0, direction := True, AbsPosition := 1\<rparr>"
  let ?s2 = "motor_without_direction_pin\<lparr>AbsPosition := 1, BurstX := 1,
        StepsSent := 1024, TX := 1, MovePosnQx := 1024, TargetPosnQx := 1024\<rparr>"
  have h1: "CommandX ?s = 0"
    by (simp add: motor_without_direction_pin_eq example_motor_eq)
  have h2: "ticks 1 (snd (move 1 ?s)) = Some ([1], ?s1)"
    by (simp add: motor_without_direction_pin_eq example_motor_eq after_short_move_def
        eval_defs ticks_1)
  have h3: "ticks 1 (snd (moveFast 1 ?s)) = Some ([1], ?s2)"
    by (simp add: motor_without_direction_pin_eq example_motor_eq eval_defs ticks_1)
  have st: "PinA ?s = 0" "direction ?s" "AbsPosition ?s = 0"
    by (simp_all add: motor_without_direction_pin_eq example_motor_eq)
  from direction_set_only_with_pin [OF h1 h2 h3]
  have "direction (snd (move 1 ?s)) \<and> direction (snd (moveFast 1 ?s))
    \<and> AbsPosition ?s1 = 0 + 1 \<and> AbsPosition ?s2 = 0 + 1"
    by (simp add: st)
  with h1 h2 h3 st show ?thesis
    by (intro conjI) (elim conjE, assumption)+
qed

end
